theory Spec2Isabelle
  imports Complex_Main
begin

section \<open>Python values\<close>

text \<open>
  A Python \<open>str\<close> is a sequence of Unicode code points, and \<open>len\<close>, slicing and
  \<open>split\<close> count code points. A code point is modelled by its number, a \<open>str\<close> by
  the list of its code points, and \<open>bytes\<close> by a list of 8-bit characters.
  \<open>ascii\<close> reads an ASCII literal of the source as a \<open>str\<close>.
\<close>

type_synonym codepoint = nat
type_synonym str = "codepoint list"
type_synonym bytes = "char list"

datatype exn = Exception string

definition ascii :: "string \<Rightarrow> str" where
  "ascii s = map of_char s"

text \<open>
  \<open>str.isspace\<close> on one code point: the characters \<open>str.split()\<close> and
  \<open>str.strip()\<close> treat as whitespace.
\<close>

definition isspace :: "codepoint \<Rightarrow> bool" where
  "isspace c = (c \<in> set [9, 10, 11, 12, 13, 28, 29, 30, 31, 32, 133, 160, 5760,
     8192, 8193, 8194, 8195, 8196, 8197, 8198, 8199, 8200, 8201, 8202,
     8232, 8233, 8239, 8287, 12288])"

text \<open>
  \<open>s.split()\<close>: the maximal runs of non-whitespace characters, left to right.
  The first argument is the word read so far.
\<close>

fun split_scan :: "str \<Rightarrow> str \<Rightarrow> str list" where
  "split_scan w [] = (if w = [] then [] else [w])"
| "split_scan w (c # cs) =
     (if isspace c then (if w = [] then split_scan [] cs else w # split_scan [] cs)
      else split_scan (w @ [c]) cs)"

definition str_split :: "str \<Rightarrow> str list" where
  "str_split s = split_scan [] s"

text \<open>
  \<open>s.split(sep)\<close> for a one-character separator: every occurrence of the separator
  ends a piece, and empty pieces are kept (\<open>'a..b'.split('.')\<close> is
  \<open>['a', '', 'b']\<close>, \<open>''.split('.')\<close> is \<open>['']\<close>).
\<close>

fun split_sep_scan :: "codepoint \<Rightarrow> str \<Rightarrow> str \<Rightarrow> str list" where
  "split_sep_scan sep w [] = [w]"
| "split_sep_scan sep w (c # cs) =
     (if c = sep then w # split_sep_scan sep [] cs else split_sep_scan sep (w @ [c]) cs)"

definition str_split_sep :: "codepoint \<Rightarrow> str \<Rightarrow> str list" where
  "str_split_sep sep s = split_sep_scan sep [] s"

definition strip :: "str \<Rightarrow> str" where
  "strip s = rev (dropWhile isspace (rev (dropWhile isspace s)))"

text \<open>\<open>sep.join(xs)\<close>.\<close>

fun join :: "str \<Rightarrow> str list \<Rightarrow> str" where
  "join sep [] = []"
| "join sep [x] = x"
| "join sep (x # y # ys) = x @ sep @ join sep (y # ys)"

text \<open>\<open>sub in s\<close> and \<open>s.endswith(suffix)\<close>.\<close>

fun contains :: "str \<Rightarrow> str \<Rightarrow> bool" where
  "contains sub [] = (sub = [])"
| "contains sub (c # cs) = (take (length sub) (c # cs) = sub \<or> contains sub cs)"

definition endswith :: "str \<Rightarrow> str \<Rightarrow> bool" where
  "endswith s suffix =
     (length suffix \<le> length s \<and> drop (length s - length suffix) s = suffix)"

text \<open>
  \<open>range(start, stop, step)\<close> for a positive step. The source only calls it with the
  literal step \<open>max_input\<close>; a step of 0 (a \<open>ValueError\<close> in Python) cannot arise
  and yields the empty list here.
\<close>

function range_step :: "nat \<Rightarrow> nat \<Rightarrow> nat \<Rightarrow> nat list" where
  "range_step i stop step =
     (if 0 < step \<and> i < stop then i # range_step (i + step) stop step else [])"
  by pat_completeness auto
termination
  by (relation "measure (\<lambda>(i, stop, step). stop - i)") auto

declare range_step.simps [simp del]


section \<open>Python floats\<close>

text \<open>
  A finite \<open>float\<close> (an IEEE 754 double) is modelled by the rational number it denotes.
  \<open>round64\<close> rounds a rational to the nearest double, ties to the even significand:
  53 significant bits, and no bound on the exponent. The values rounded here come from the
  lengths of two strings, which are below \<open>2^63\<close>, so they stay in the range of the
  normal doubles, far from overflow and underflow.
  \<^item> \<open>binary_exponent x\<close>, for \<open>x > 0\<close>, is the \<open>e\<close> with \<open>2^e \<le> x < 2^(e+1)\<close>;
  \<^item> \<open>int_true_divide\<close> is \<open>a / b\<close> on two \<open>int\<close>s, the correctly rounded quotient;
  \<^item> \<open>float_sub\<close> and \<open>float_mul\<close> are \<open>-\<close> and \<open>*\<close> on floats;
  \<^item> \<open>format_1f\<close> is \<open>f"{x:.1f}"\<close>: the decimal with one digit after the point
    nearest to the value, ties to the even digit, with the sign of a negative value.
\<close>

definition round_half_even :: "rat \<Rightarrow> int" where
  "round_half_even x =
     (let f = \<lfloor>x\<rfloor>; d = x - of_int f in
      if d < 1 / 2 then f else if 1 / 2 < d then f + 1 else if even f then f else f + 1)"

fun bit_length :: "nat \<Rightarrow> nat" where
  "bit_length n = (if n = 0 then 0 else Suc (bit_length (n div 2)))"

declare bit_length.simps [simp del]

definition pow2 :: "int \<Rightarrow> rat" where
  "pow2 k = (if 0 \<le> k then 2 ^ nat k else 1 / 2 ^ nat (- k))"

definition binary_exponent :: "rat \<Rightarrow> int" where
  "binary_exponent x =
     (if 1 \<le> x then int (bit_length (nat \<lfloor>x\<rfloor>)) - 1
      else - int (bit_length (nat (\<lceil>1 / x\<rceil> - 1))))"

definition round64 :: "rat \<Rightarrow> rat" where
  "round64 x =
     (if x = 0 then 0
      else (let u = pow2 (binary_exponent \<bar>x\<bar> - 52)
            in sgn x * of_int (round_half_even (\<bar>x\<bar> / u)) * u))"

definition int_true_divide :: "nat \<Rightarrow> nat \<Rightarrow> rat" where
  "int_true_divide a b = round64 (of_nat a / of_nat b)"

definition float_sub :: "rat \<Rightarrow> rat \<Rightarrow> rat" where
  "float_sub x y = round64 (x - y)"

definition float_mul :: "rat \<Rightarrow> rat \<Rightarrow> rat" where
  "float_mul x y = round64 (x * y)"

fun decimal :: "nat \<Rightarrow> str" where
  "decimal n = (if n < 10 then [48 + n] else decimal (n div 10) @ [48 + n mod 10])"

declare decimal.simps [simp del]

definition format_1f :: "rat \<Rightarrow> str" where
  "format_1f x =
     (let t = nat (round_half_even (\<bar>x\<bar> * 10)) in
      (if x < 0 then ascii ''-'' else []) @ decimal (t div 10) @ ascii ''.'' @ decimal (t mod 10))"


section \<open>The external collaborators\<close>

text \<open>
  The libraries the program calls are parameters of the model. Each call either
  returns or raises; a raise is the \<open>Inl\<close> of a sum.
  \<^item> \<open>lower\<close> is \<open>str.lower\<close>;
  \<^item> \<open>pdf_pages\<close> is \<open>PyPDF2.PdfReader(...)\<close> followed by the \<open>extract_text()\<close>
    of each page of \<open>.pages\<close>, in page order: opening the container may raise, and
    so may each page;
  \<^item> \<open>docx_paragraphs\<close> is \<open>Document(...)\<close> and the \<open>text\<close> of each paragraph;
  \<^item> \<open>decode_utf8\<close> is \<open>bytes.decode('utf-8')\<close>.
\<close>

record env =
  lower :: "str \<Rightarrow> str"
  pdf_pages :: "bytes \<Rightarrow> exn + (exn + str) list"
  docx_paragraphs :: "bytes \<Rightarrow> exn + str list"
  decode_utf8 :: "bytes \<Rightarrow> exn + str"

text \<open>
  The dictionary \<open>load_models\<close> returns. \<open>summarizer\<close> takes the text,
  \<open>max_length\<close> and \<open>min_length\<close> and yields the \<open>summary_text\<close> of its first
  result; \<open>qa\<close> takes the question and the context and yields the answer and its score
  (a finite double, read as the rational it denotes); \<open>quiz_gen\<close> takes the prompt
  (with \<open>max_length=50\<close>) and yields the \<open>generated_text\<close> of its first result.
  The entry \<open>embedder\<close> is never read and is left out.
\<close>

record capabilities =
  summarizer :: "str \<Rightarrow> nat \<Rightarrow> nat \<Rightarrow> exn + str"
  qa :: "str \<Rightarrow> str \<Rightarrow> exn + (str \<times> rat)"
  quiz_gen :: "str \<Rightarrow> exn + str"

text \<open>The file object of \<open>st.file_uploader\<close>: its name, its MIME type, its bytes.\<close>

record uploaded_file =
  name :: str
  type :: str
  data :: bytes

text \<open>\<open>st.session_state\<close>, with the three keys \<open>__init__\<close> creates.\<close>

record 'h session_state =
  models :: "'h option"
  current_document :: "str option"
  document_text :: "str option"

text \<open>What one run of an interface shows.\<close>

datatype 'a outcome =
    NotReady    \<comment> \<open>the warning to initialize the models first\<close>
  | NoInput     \<comment> \<open>nothing uploaded or pasted: the prompt to provide a document\<close>
  | NoForm      \<comment> \<open>no usable document text: nothing more is shown\<close>
  | Idle        \<comment> \<open>the form is shown, the button is not pressed\<close>
  | Done 'a     \<comment> \<open>the \<open>try\<close> block ran to its end\<close>
  | Failed exn  \<comment> \<open>the \<open>except\<close> branch: the error box\<close>


section \<open>AIModels.load_models and the sidebar of main\<close>

text \<open>
  \<open>load_models\<close> is decorated with \<open>st.cache_resource\<close>. The decorator keeps, for
  the whole process, the value the function returned for a given argument list, whatever
  that value is, and returns it on every later call without running the body; the
  parameter \<open>_self\<close> is left out of the key by its leading underscore, so the function
  has one entry. \<open>cache = None\<close> is no entry yet. \<open>loader_runs\<close> counts the runs of
  the body; the program does not read it.

  \<open>build n\<close> is the outcome of building the four models when the body runs for the
  \<open>n\<close>-th time (counting from 0): the dictionary, or the exception one of the
  constructors raised.
\<close>

record 'h process =
  cache :: "'h option option"
  loader_runs :: nat

definition load_models_body :: "bool \<Rightarrow> (nat \<Rightarrow> exn + 'h) \<Rightarrow> nat \<Rightarrow> 'h option" where
  "load_models_body MODELS_AVAILABLE build n =
     (if \<not> MODELS_AVAILABLE then None
      else case build n of Inl e \<Rightarrow> None | Inr ms \<Rightarrow> Some ms)"

definition load_models ::
  "bool \<Rightarrow> (nat \<Rightarrow> exn + 'h) \<Rightarrow> 'h process \<Rightarrow> 'h option \<times> 'h process" where
  "load_models MODELS_AVAILABLE build p =
     (case cache p of
        Some r \<Rightarrow> (r, p)
      | None \<Rightarrow>
          (let r = load_models_body MODELS_AVAILABLE build (loader_runs p)
           in (r, p\<lparr>cache := Some r, loader_runs := loader_runs p + 1\<rparr>)))"

text \<open>
  The model loading section of \<open>main\<close>: \<open>button\<close> is whether
  "Initialize AI Models" was clicked in this run.
\<close>

definition main_model_loading ::
  "bool \<Rightarrow> (nat \<Rightarrow> exn + 'h) \<Rightarrow> bool \<Rightarrow> 'h session_state \<times> 'h process
     \<Rightarrow> 'h session_state \<times> 'h process" where
  "main_model_loading MODELS_AVAILABLE build button sp =
     (case sp of (s, p) \<Rightarrow>
        if models s = None \<and> MODELS_AVAILABLE then
          (if button then
             (case load_models MODELS_AVAILABLE build p of
                (r, p') \<Rightarrow> (s\<lparr>models := r\<rparr>, p'))
           else (s, p))
        else (s, p))"


section \<open>DocumentProcessor\<close>

definition newline :: str where
  "newline = ascii ''\<newline>''"

text \<open>
  The loop of \<open>extract_text_from_pdf\<close>; the second argument is \<open>text\<close>. A page that
  raises leaves the loop through the \<open>except\<close> branch.
\<close>

fun pdf_loop :: "(exn + str) list \<Rightarrow> str \<Rightarrow> exn + str" where
  "pdf_loop [] text = Inr text"
| "pdf_loop (page # pages) text =
     (case page of
        Inl e \<Rightarrow> Inl e
      | Inr t \<Rightarrow> pdf_loop pages (text @ (t @ newline)))"

definition extract_text_from_pdf :: "env \<Rightarrow> uploaded_file \<Rightarrow> str option" where
  "extract_text_from_pdf ext file =
     (case pdf_pages ext (data file) of
        Inl e \<Rightarrow> None
      | Inr pages \<Rightarrow>
          (case pdf_loop pages [] of Inl e \<Rightarrow> None | Inr text \<Rightarrow> Some text))"

definition extract_text_from_docx :: "env \<Rightarrow> uploaded_file \<Rightarrow> str option" where
  "extract_text_from_docx ext file =
     (case docx_paragraphs ext (data file) of
        Inl e \<Rightarrow> None
      | Inr paras \<Rightarrow> Some (join newline paras))"

definition extract_text_from_txt :: "env \<Rightarrow> uploaded_file \<Rightarrow> str option" where
  "extract_text_from_txt ext file =
     (case decode_utf8 ext (data file) of Inl e \<Rightarrow> None | Inr text \<Rightarrow> Some text)"

definition process_document :: "env \<Rightarrow> uploaded_file option \<Rightarrow> str option" where
  "process_document ext uploaded =
     (case uploaded of
        None \<Rightarrow> None
      | Some file \<Rightarrow>
          (let file_type = type file; file_name = lower ext (name file) in
           if contains (ascii ''pdf'') file_type \<or> endswith file_name (ascii ''.pdf'')
             then extract_text_from_pdf ext file
           else if contains (ascii ''word'') file_type \<or> endswith file_name (ascii ''.docx'')
             then extract_text_from_docx ext file
           else if contains (ascii ''text'') file_type \<or> endswith file_name (ascii ''.txt'')
             then extract_text_from_txt ext file
           else None))"

text \<open>Python's truth value of \<open>text\<close>: neither \<open>None\<close> nor the empty string.\<close>

definition truthy :: "str option \<Rightarrow> bool" where
  "truthy t = (case t of None \<Rightarrow> False | Some x \<Rightarrow> x \<noteq> [])"


section \<open>StudyAssistantApp.question_answering_interface\<close>

definition max_context :: nat where
  "max_context = 2000"

text \<open>
  The literal \<open>0.3\<close> of the source is the double nearest to three tenths; the
  comparison \<open>result['score'] < 0.3\<close> compares the two doubles exactly.
\<close>

definition low_confidence_threshold :: rat where
  "low_confidence_threshold = 5404319552844595 / 18014398509481984"

text \<open>
  The document step: the file is processed when its name differs from
  \<open>current_document\<close>, and both keys are written when the text is truthy. The
  flag says whether \<open>process_document\<close> was called.
\<close>

definition load_document ::
  "env \<Rightarrow> 'h session_state \<Rightarrow> uploaded_file \<Rightarrow> 'h session_state \<times> bool" where
  "load_document ext s file =
     (if current_document s \<noteq> Some (name file) then
        (let text = process_document ext (Some file) in
         if truthy text
           then (s\<lparr>document_text := text, current_document := Some (name file)\<rparr>, True)
           else (s, True))
      else (s, False))"

text \<open>
  The question step. The result holds the calls made to the Q&A pipeline, each as
  (question, context), and what is shown: for an answer, its text, its score and whether
  the low-confidence warning is added.
\<close>

definition ask ::
  "capabilities \<Rightarrow> str option \<Rightarrow> str \<Rightarrow> bool
     \<Rightarrow> (str \<times> str) list \<times> (str \<times> rat \<times> bool) outcome" where
  "ask ms doc question button =
     (case doc of
        None \<Rightarrow> ([], NoForm)
      | Some text \<Rightarrow>
          if text = [] then ([], NoForm)
          else if question \<noteq> [] \<and> button then
            (let context = take max_context text in
             case qa ms question context of
               Inl e \<Rightarrow> ([(question, context)], Failed e)
             | Inr (answer, score) \<Rightarrow>
                 ([(question, context)],
                  Done (answer, score, score < low_confidence_threshold)))
          else ([], Idle))"

definition question_answering_interface ::
  "env \<Rightarrow> capabilities session_state \<Rightarrow> uploaded_file option \<Rightarrow> str \<Rightarrow> bool
     \<Rightarrow> capabilities session_state \<times> bool \<times> (str \<times> str) list
         \<times> (str \<times> rat \<times> bool) outcome" where
  "question_answering_interface ext s uploaded question button =
     (case models s of
        None \<Rightarrow> (s, False, [], NotReady)
      | Some ms \<Rightarrow>
          (case uploaded of
             None \<Rightarrow> (s, False, [], NoInput)
           | Some file \<Rightarrow>
               (case load_document ext s file of
                  (s', processed) \<Rightarrow>
                    (case ask ms (document_text s') question button of
                       (calls, shown) \<Rightarrow> (s', processed, calls, shown)))))"

text \<open>A sequence of runs of the document step, one per upload.\<close>

fun load_documents ::
  "env \<Rightarrow> 'h session_state \<Rightarrow> uploaded_file list \<Rightarrow> 'h session_state \<times> bool list" where
  "load_documents ext s [] = (s, [])"
| "load_documents ext s (file # files) =
     (case load_document ext s file of
        (s', processed) \<Rightarrow>
          (case load_documents ext s' files of
             (s'', flags) \<Rightarrow> (s'', processed # flags)))"


section \<open>StudyAssistantApp.summarization_interface\<close>

definition max_input :: nat where
  "max_input = 3000"

text \<open>
  The list comprehension
  \<open>[text_content[i:i+max_input] for i in range(0, len(text_content), max_input)]\<close>,
  with the window size as a parameter; \<open>chunks\<close> is the source's.
\<close>

definition chunks_of_size :: "nat \<Rightarrow> 'a list \<Rightarrow> 'a list list" where
  "chunks_of_size m s = map (\<lambda>i. take m (drop i s)) (range_step 0 (length s) m)"

definition chunks :: "'a list \<Rightarrow> 'a list list" where
  "chunks s = chunks_of_size max_input s"

text \<open>
  The loop over \<open>chunks[:3]\<close>: the third argument is \<open>summaries\<close>. The result holds
  the chunks passed to the summarizer, in call order, and the summaries or the exception
  that ended the loop.
\<close>

fun summarize_chunks ::
  "(str \<Rightarrow> exn + str) \<Rightarrow> str list \<Rightarrow> str list \<Rightarrow> str list \<times> (exn + str list)" where
  "summarize_chunks f [] summaries = ([], Inr summaries)"
| "summarize_chunks f (chunk # rest) summaries =
     (if 50 < length (str_split chunk) then
        (case f chunk of
           Inl e \<Rightarrow> ([chunk], Inl e)
         | Inr summary \<Rightarrow>
             (case summarize_chunks f rest (summaries @ [summary]) of
                (calls, r) \<Rightarrow> (chunk # calls, r)))
      else summarize_chunks f rest summaries)"

text \<open>
  The \<open>try\<close> block. What is shown is the summary, the float \<open>compression\<close> and
  the text of the Compression metric, \<open>f"{compression:.1f}%"\<close>.
\<close>

definition generate_summary ::
  "capabilities \<Rightarrow> str \<Rightarrow> nat \<Rightarrow> nat \<Rightarrow> str list \<times> (str \<times> rat \<times> str) outcome" where
  "generate_summary ms text_content max_length min_length =
     (case summarize_chunks (\<lambda>chunk. summarizer ms chunk max_length min_length)
             (take 3 (chunks text_content)) [] of
        (calls, Inl e) \<Rightarrow> (calls, Failed e)
      | (calls, Inr summaries) \<Rightarrow>
          (let final_summary = join (ascii '' '') summaries in
           if length text_content = 0
             then (calls, Failed (Exception ''ZeroDivisionError''))
             else
               (let compression =
                      float_mul
                        (float_sub 1
                           (int_true_divide (length final_summary) (length text_content)))
                        100
                in (calls, Done (final_summary, compression,
                                 format_1f compression @ ascii ''%'')))))"

datatype input_method = Upload "uploaded_file option" | Paste str

definition summarization_interface ::
  "env \<Rightarrow> capabilities session_state \<Rightarrow> input_method \<Rightarrow> nat \<Rightarrow> nat \<Rightarrow> bool
     \<Rightarrow> str list \<times> (str \<times> rat \<times> str) outcome" where
  "summarization_interface ext s input max_length min_length button =
     (case models s of
        None \<Rightarrow> ([], NotReady)
      | Some ms \<Rightarrow>
          (let text_content =
                 (case input of
                    Upload None \<Rightarrow> Some []
                  | Upload (Some file) \<Rightarrow> process_document ext (Some file)
                  | Paste t \<Rightarrow> Some t) in
           case text_content of
             None \<Rightarrow> ([], NoInput)
           | Some t \<Rightarrow>
               if t = [] then ([], NoInput)
               else if button then generate_summary ms t max_length min_length
               else ([], Idle)))"


section \<open>StudyAssistantApp.quiz_interface\<close>

definition sentences :: "str \<Rightarrow> str list" where
  "sentences text_content =
     map strip (filter (\<lambda>s. 5 < length (str_split s)) (str_split_sep (of_char CHR ''.'') text_content))"

definition quiz_prompt :: "str \<Rightarrow> str" where
  "quiz_prompt sentence = ascii ''generate question: '' @ take 200 sentence"

text \<open>
  The loop over \<open>selected_sentences\<close>. The result holds the prompts passed to the
  generator, the items rendered (question, reference) and the exception that ended the
  loop, if one did: the items rendered before it stay on the page.
\<close>

fun quiz_loop ::
  "(str \<Rightarrow> exn + str) \<Rightarrow> str list \<Rightarrow> str list \<times> (str \<times> str) list \<times> exn option" where
  "quiz_loop gen [] = ([], [], None)"
| "quiz_loop gen (sentence # rest) =
     (case gen (quiz_prompt sentence) of
        Inl e \<Rightarrow> ([quiz_prompt sentence], [], Some e)
      | Inr question \<Rightarrow>
          (case quiz_loop gen rest of
             (calls, items, err) \<Rightarrow>
               (quiz_prompt sentence # calls, (question, sentence) # items, err)))"

definition generate_quiz ::
  "capabilities \<Rightarrow> str \<Rightarrow> nat \<Rightarrow> str list \<times> (str \<times> str) list \<times> exn option" where
  "generate_quiz ms text_content num_questions =
     quiz_loop (quiz_gen ms) (take num_questions (sentences text_content))"

definition quiz_interface ::
  "env \<Rightarrow> capabilities session_state \<Rightarrow> uploaded_file option \<Rightarrow> nat \<Rightarrow> bool
     \<Rightarrow> str list \<times> ((str \<times> str) list \<times> exn option) outcome" where
  "quiz_interface ext s uploaded num_questions button =
     (case models s of
        None \<Rightarrow> ([], NotReady)
      | Some ms \<Rightarrow>
          (case uploaded of
             None \<Rightarrow> ([], NoInput)
           | Some file \<Rightarrow>
               (case process_document ext (Some file) of
                  None \<Rightarrow> ([], NoForm)
                | Some t \<Rightarrow>
                    if t = [] then ([], NoForm)
                    else if button then
                      (case generate_quiz ms t num_questions of
                         (calls, items, err) \<Rightarrow> (calls, Done (items, err)))
                    else ([], Idle))))"


section \<open>The statements of the specification\<close>

text \<open>
  The specification's reconstruction of a text from its windows: the first window, then
  every later window without its first \<open>overlap\<close> characters.
\<close>

definition spec_reassemble :: "nat \<Rightarrow> 'a list list \<Rightarrow> 'a list" where
  "spec_reassemble overlap ws =
     (case ws of [] \<Rightarrow> [] | w # rest \<Rightarrow> w @ concat (map (drop overlap) rest))"

text \<open>
  The specification's compression ratio, \<open>1 - len(summary)/len(original_text)\<close>, as
  the exact number.
\<close>

definition spec_compression_ratio :: "nat \<Rightarrow> nat \<Rightarrow> rat" where
  "spec_compression_ratio summary_length text_length =
     1 - of_nat summary_length / of_nat text_length"

text \<open>
  The specification's sentence-like units: the text split at every sentence-terminal
  punctuation mark, the full stop, the exclamation mark and the question mark.
\<close>

fun split_any_scan :: "str \<Rightarrow> str \<Rightarrow> str \<Rightarrow> str list" where
  "split_any_scan seps w [] = [w]"
| "split_any_scan seps w (c # cs) =
     (if c \<in> set seps then w # split_any_scan seps [] cs
      else split_any_scan seps (w @ [c]) cs)"

definition spec_sentence_units :: "str \<Rightarrow> str list" where
  "spec_sentence_units text_content = split_any_scan (ascii ''.!?'') [] text_content"


section \<open>Example inputs\<close>

text \<open>
  Concrete collaborators and inputs for the examples below. \<open>ascii_lower\<close> is
  \<open>str.lower\<close> on ASCII text. The example environment reads two PDF files (one of
  three pages, the second of them without text, and one whose second page cannot be
  read), no DOCX file, and ASCII text files. The example models return a fixed summary
  cut to \<open>max_length\<close>, the first five characters of the context with a score of 0.25
  (and raise on an empty context), and the prompt's sentence followed by a question mark.
\<close>

definition ascii_lower :: "str \<Rightarrow> str" where
  "ascii_lower s = map (\<lambda>c. if 65 \<le> c \<and> c \<le> 90 then c + 32 else c) s"

definition example_env :: env where
  "example_env =
     \<lparr>lower = ascii_lower,
      pdf_pages = (\<lambda>b.
         if b = ''%PDF'' then Inr [Inr (ascii ''Page one''), Inr [], Inr (ascii ''Page three'')]
         else if b = ''%PDF-damaged''
           then Inr [Inr (ascii ''Page one''), Inl (Exception ''PdfReadError'')]
         else Inl (Exception ''PdfReadError'')),
      docx_paragraphs = (\<lambda>b. Inl (Exception ''BadZipFile'')),
      decode_utf8 = (\<lambda>b.
         if list_all (\<lambda>c. of_char c < (128::nat)) b then Inr (map of_char b)
         else Inl (Exception ''UnicodeDecodeError''))\<rparr>"

definition example_models :: capabilities where
  "example_models =
     \<lparr>summarizer = (\<lambda>t max_length min_length.
                      Inr (take max_length (ascii ''Words about words.''))),
      qa = (\<lambda>question context.
              if context = [] then Inl (Exception ''ValueError'')
              else Inr (take 5 context, 1 / 4)),
      quiz_gen = (\<lambda>prompt. Inr (drop 19 prompt @ ascii ''?''))\<rparr>"

definition new_session :: "'h session_state" where
  "new_session = \<lparr>models = None, current_document = None, document_text = None\<rparr>"


section \<open>The chunker\<close>

lemma range_step_upt:
  "0 < step \<Longrightarrow> range_step i stop step =
     map (\<lambda>k. i + k * step) [0..<(stop - i + step - 1) div step]"
proof (induction i stop step rule: range_step.induct)
  case (1 i stop step)
  show ?case
  proof (cases "i < stop")
    case False
    then show ?thesis using 1(2) by (simp add: range_step.simps)
  next
    case True
    have n: "(stop - i + step - 1) div step = Suc ((stop - (i + step) + step - 1) div step)"
    proof (cases "step \<le> stop - i")
      case True
      then have e: "stop - i + step - 1 = (stop - Suc i) + step"
        "stop - (i + step) + step - 1 = stop - Suc i"
        using \<open>i < stop\<close> by simp_all
      have "step \<noteq> 0" using 1(2) by simp
      from div_add_self2 [OF this, of "stop - Suc i"]
      show ?thesis unfolding e by simp
    next
      case False
      then have a: "stop - (i + step) + step - 1 = step - 1" by simp
      have b: "(stop - i + step - 1) div step = 1"
        using False True 1(2) by (simp add: div_nat_eqI)
      show ?thesis using a b 1(2) by simp
    qed
    have "range_step i stop step = i # range_step (i + step) stop step"
      using True 1(2) by (simp add: range_step.simps)
    also have "\<dots> =
        i # map (\<lambda>k. i + step + k * step) [0..<(stop - (i + step) + step - 1) div step]"
      using 1 True by simp
    also have "\<dots> =
        map (\<lambda>k. i + k * step) [0..<Suc ((stop - (i + step) + step - 1) div step)]"
      by (simp add: upt_conv_Cons map_Suc_upt [symmetric] del: upt_Suc)
    finally show ?thesis using n by simp
  qed
qed

lemma concat_windows_from:
  "0 < m \<Longrightarrow> concat (map (\<lambda>i. take m (drop i s)) (range_step i (length s) m)) = drop i s"
proof (induction i "length s" m rule: range_step.induct)
  case (1 i step)
  show ?case
  proof (cases "i < length s")
    case True
    have "concat (map (\<lambda>i. take step (drop i s)) (range_step i (length s) step))
        = take step (drop i s)
          @ concat (map (\<lambda>i. take step (drop i s)) (range_step (i + step) (length s) step))"
      using True 1(2) by (subst range_step.simps) simp
    also have "\<dots> = take step (drop i s) @ drop (i + step) s"
      using 1 True by simp
    also have "\<dots> = drop i s"
      by (metis add.commute append_take_drop_id drop_drop)
    finally show ?thesis .
  next
    case False
    then show ?thesis using 1(2) by (subst range_step.simps) simp
  qed
qed

lemma concat_chunks_of_size: "0 < m \<Longrightarrow> concat (chunks_of_size m s) = s"
  using concat_windows_from [of m s 0] by (simp add: chunks_of_size_def)

lemma spec_reassemble_0: "spec_reassemble 0 ws = concat ws"
  by (cases ws) (simp_all add: spec_reassemble_def)

lemma chunks_of_size_upt:
  "0 < m \<Longrightarrow> chunks_of_size m s =
     map (\<lambda>k. take m (drop (k * m) s)) [0..<(length s + m - 1) div m]"
  by (simp add: chunks_of_size_def range_step_upt comp_def)

text \<open>
  C1, as stated, asks that for every window size and every overlap below it the windows
  of the chunker, each later one without its first \<open>overlap\<close> characters, give the
  text back. The chunker of the source has no overlap: it advances by the whole window
  size, which is the literal 3000. On a text of 3001 characters its windows are the
  first 3000 characters and the last one; trimming an overlap of 1 from the second
  window loses that character.
\<close>

theorem chunker_round_trip_counterexample:
  "(1::nat) < max_input \<and>
   chunks (replicate 3001 (97::nat)) = [replicate 3000 97, [97]] \<and>
   spec_reassemble 1 (chunks (replicate 3001 (97::nat))) = replicate 3000 97 \<and>
   spec_reassemble 1 (chunks (replicate 3001 (97::nat))) \<noteq> replicate 3001 97"
proof -
  have c: "chunks (replicate 3001 (97::nat)) = [replicate 3000 97, [97]]"
    by (simp add: chunks_def chunks_of_size_def max_input_def range_step.simps)
  have r: "spec_reassemble 1 (chunks (replicate 3001 (97::nat))) = replicate 3000 97"
    by (simp add: c spec_reassemble_def)
  have "length (replicate 3000 (97::nat)) \<noteq> length (replicate 3001 (97::nat))" by simp
  then have "replicate 3000 (97::nat) \<noteq> replicate 3001 97" by metis
  then show ?thesis using c r by (simp add: max_input_def)
qed

text \<open>
  C1, amended: for every text and every positive window size (3000 in the source), the
  chunker's windows do not overlap, and concatenating them, with nothing trimmed, gives
  the text back exactly.
\<close>

theorem chunker_round_trip_no_overlap:
  "0 < m \<Longrightarrow> spec_reassemble 0 (chunks_of_size m s) = s \<and> concat (chunks_of_size m s) = s"
  by (simp add: spec_reassemble_0 concat_chunks_of_size)

theorem chunker_round_trip_no_overlap_witness:
  "spec_reassemble 0 (chunks_of_size 3000 (replicate 3001 (97::nat))) = replicate 3001 97
   \<and> chunks (ascii ''study notes'') = [ascii ''study notes'']
   \<and> concat (chunks (ascii ''study notes'')) = ascii ''study notes''"
  using chunker_round_trip_no_overlap [of 3000 "replicate 3001 (97::nat)"]
    chunker_round_trip_no_overlap [of max_input "ascii ''study notes''"]
  by (simp add: chunks_def chunks_of_size_def max_input_def range_step.simps ascii_def)

text \<open>
  C2, as stated, puts the windows of a 9000-character text at [0,4000), [3800,7800) and
  [7600,9000). The source has neither the window size 4000 nor an overlap: on the text
  whose character at position \<open>i\<close> is the code point \<open>i\<close>, its first window has
  3000 characters, not 4000; and even with a window size of 4000 its second window
  starts with the character at position 4000, not 3800.
\<close>

theorem chunker_walk_counterexample:
  "chunks [0..<9000] \<noteq>
     [take 4000 (drop 0 [0..<9000]), take 4000 (drop 3800 [0..<9000]),
      take 4000 (drop 7600 [0..<9000])]
   \<and> chunks_of_size 4000 [0..<9000] \<noteq>
     [take 4000 (drop 0 [0..<9000]), take 4000 (drop 3800 [0..<9000]),
      take 4000 (drop 7600 [0..<9000])]"
proof (intro conjI notI)
  assume e: "chunks [0..<9000] =
     [take 4000 (drop 0 [0..<9000]), take 4000 (drop 3800 [0..<9000]),
      take 4000 (drop 7600 [0..<9000])]"
  have "length (hd (chunks [0..<9000])) = 3000"
    by (simp add: chunks_def chunks_of_size_def max_input_def range_step.simps
          del: upt_rec_numeral)
  then show False
    unfolding e by (simp del: upt_rec_numeral)
next
  assume e: "chunks_of_size 4000 [0..<9000] =
     [take 4000 (drop 0 [0..<9000]), take 4000 (drop 3800 [0..<9000]),
      take 4000 (drop 7600 [0..<9000])]"
  have "hd (chunks_of_size 4000 [0..<9000] ! 1) = 4000"
    by (simp add: chunks_of_size_def range_step.simps del: upt_rec_numeral)
  then show False
    unfolding e by (simp del: upt_rec_numeral)
qed

text \<open>
  C2, amended: for every text, the chunker walks left to right in steps of the window
  size 3000, with no overlap: window \<open>k\<close> covers [3000 k, 3000 k + 3000) clipped to the
  length of the text, and there are as many windows as it takes to reach the end. A
  9000-character text yields exactly the three windows at [0,3000), [3000,6000) and
  [6000,9000).
\<close>

theorem chunker_walk:
  "chunks s = map (\<lambda>k. take max_input (drop (k * max_input) s))
                [0..<(length s + max_input - 1) div max_input]
   \<and> max_input = 3000
   \<and> (length s = 9000 \<longrightarrow>
        chunks s = [take 3000 s, take 3000 (drop 3000 s), drop 6000 s])"
proof -
  have a: "chunks s = map (\<lambda>k. take max_input (drop (k * max_input) s))
                [0..<(length s + max_input - 1) div max_input]"
    unfolding chunks_def by (rule chunks_of_size_upt) (simp add: max_input_def)
  have b: "chunks s = [take 3000 s, take 3000 (drop 3000 s), drop 6000 s]"
    if "length s = 9000"
    using that by (simp add: chunks_def chunks_of_size_def max_input_def range_step.simps)
  show ?thesis using a b by (simp add: max_input_def)
qed

theorem chunker_walk_witness:
  "chunks [0..<9000] = [[0..<3000], [3000..<6000], [6000..<9000]]"
  using chunker_walk [of "[0..<9000]", THEN conjunct2, THEN conjunct2]
  by (simp del: upt_rec_numeral)


section \<open>Model loading\<close>

lemma load_models_cached:
  "cache p = Some r \<Longrightarrow> load_models avail build p = (r, p)"
  by (simp add: load_models_def)

lemma load_models_then_cached:
  "load_models avail build p = (r, p') \<Longrightarrow> load_models avail' build' p' = (r, p')"
  by (auto simp: load_models_def Let_def split: option.splits)

lemma load_models_runs_body_once:
  "cache p = None \<Longrightarrow> load_models avail build p = (r, p') \<Longrightarrow>
     loader_runs p' = loader_runs p + 1 \<and> cache p' = Some r"
  by (auto simp: load_models_def Let_def)

lemma main_model_loading_ready:
  "models s = Some ms \<Longrightarrow> main_model_loading avail build button (s, p) = (s, p)"
  by (simp add: main_model_loading_def)

text \<open>
  C3: after a successful load every later call returns the cached dictionary without
  running the loader again (the lemmas above); after a failed load a later call
  should build the models again. It does not: \<open>load_models\<close> catches the exception and
  returns \<open>None\<close>, the decorator caches that \<open>None\<close>, and the second click on
  "Initialize AI Models" gets it back without running the body. Here the first build
  raises and a second build would succeed; after two clicks the session still has no
  models and the body has run once.
\<close>

theorem load_models_failure_is_cached:
  "main_model_loading True
      (\<lambda>n. if n = 0 then Inl (Exception ''ConnectionError'') else Inr ''models'') True
      (main_model_loading True
         (\<lambda>n. if n = 0 then Inl (Exception ''ConnectionError'') else Inr ''models'') True
         (new_session, \<lparr>cache = None, loader_runs = 0\<rparr>))
    = (new_session, \<lparr>cache = Some None, loader_runs = 1\<rparr>)"
  by (simp add: main_model_loading_def load_models_def load_models_body_def new_session_def)


section \<open>Document processing\<close>

lemma pdf_loop_all_pages:
  "pdf_loop (map Inr ts) acc = Inr (acc @ concat (map (\<lambda>t. t @ newline) ts))"
  by (induction ts arbitrary: acc) simp_all

lemma pdf_loop_page_raises:
  "Inl e \<in> set pages \<Longrightarrow> \<exists>e'. pdf_loop pages acc = Inl e'"
  by (induction pages arbitrary: acc) (auto split: sum.splits)

lemma terminated_join:
  "ts \<noteq> [] \<Longrightarrow> concat (map (\<lambda>t. t @ sep) ts) = join sep ts @ sep"
  by (induction sep ts rule: join.induct) simp_all

text \<open>
  C9, as stated, makes the text of a PDF the page texts with a newline between
  consecutive pages and nothing else. The loop appends a newline after every page, the
  last one too: for the three pages "Page one", "" and "Page three" the result ends in a
  newline that the joined text does not have.
\<close>

theorem pdf_separator_counterexample:
  "pdf_pages example_env ''%PDF'' = Inr (map Inr [ascii ''Page one'', [], ascii ''Page three''])
   \<and> extract_text_from_pdf example_env
        \<lparr>name = ascii ''notes.pdf'', type = ascii ''application/pdf'', data = ''%PDF''\<rparr>
      \<noteq> Some (join newline [ascii ''Page one'', [], ascii ''Page three''])"
  by (simp add: example_env_def extract_text_from_pdf_def ascii_def newline_def)

text \<open>
  C9, amended: for every PDF whose pages yield the texts \<open>t1 .. tn\<close>, extraction
  returns each page's text followed by a newline, in page order, and nothing else: the
  page texts joined by newlines, plus one newline after the last page. A page with no
  text contributes the empty string (so only its newline), and extraction goes on with
  the remaining pages.
\<close>

theorem pdf_pages_newline_terminated:
  "pdf_pages ext (data file) = Inr (map Inr ts) \<Longrightarrow>
     extract_text_from_pdf ext file = Some (concat (map (\<lambda>t. t @ newline) ts))
     \<and> (ts \<noteq> [] \<longrightarrow> extract_text_from_pdf ext file = Some (join newline ts @ newline))"
  by (simp add: extract_text_from_pdf_def pdf_loop_all_pages terminated_join)

theorem pdf_pages_newline_terminated_witness:
  "extract_text_from_pdf example_env
      \<lparr>name = ascii ''notes.pdf'', type = ascii ''application/pdf'', data = ''%PDF''\<rparr>
     = Some (ascii ''Page one\<newline>\<newline>Page three\<newline>'')"
  using pdf_pages_newline_terminated [of example_env
      "\<lparr>name = ascii ''notes.pdf'', type = ascii ''application/pdf'', data = ''%PDF''\<rparr>"
      "[ascii ''Page one'', [], ascii ''Page three'']"]
  by (simp add: example_env_def ascii_def newline_def)

text \<open>
  C10: \<open>process_document\<close> returns \<open>None\<close>, and raises nothing, for a missing upload,
  for a file whose type and name match none of PDF, DOCX and TXT, and for every failure
  while extracting: a PDF container that cannot be opened, a PDF page that cannot be
  read, a DOCX container that cannot be opened, bytes that are not UTF-8.
\<close>

theorem process_document_failures_are_None:
  "process_document ext None = None
   \<and> (\<not> contains (ascii ''pdf'') (type file) \<and> \<not> endswith (lower ext (name file)) (ascii ''.pdf'')
      \<and> \<not> contains (ascii ''word'') (type file) \<and> \<not> endswith (lower ext (name file)) (ascii ''.docx'')
      \<and> \<not> contains (ascii ''text'') (type file) \<and> \<not> endswith (lower ext (name file)) (ascii ''.txt'')
      \<longrightarrow> process_document ext (Some file) = None)
   \<and> ((contains (ascii ''pdf'') (type file) \<or> endswith (lower ext (name file)) (ascii ''.pdf''))
      \<and> (pdf_pages ext (data file) = Inl e
           \<or> pdf_pages ext (data file) = Inr pages \<and> Inl e \<in> set pages)
      \<longrightarrow> process_document ext (Some file) = None)
   \<and> (\<not> contains (ascii ''pdf'') (type file) \<and> \<not> endswith (lower ext (name file)) (ascii ''.pdf'')
      \<and> (contains (ascii ''word'') (type file) \<or> endswith (lower ext (name file)) (ascii ''.docx''))
      \<and> docx_paragraphs ext (data file) = Inl e
      \<longrightarrow> process_document ext (Some file) = None)
   \<and> (\<not> contains (ascii ''pdf'') (type file) \<and> \<not> endswith (lower ext (name file)) (ascii ''.pdf'')
      \<and> \<not> contains (ascii ''word'') (type file) \<and> \<not> endswith (lower ext (name file)) (ascii ''.docx'')
      \<and> (contains (ascii ''text'') (type file) \<or> endswith (lower ext (name file)) (ascii ''.txt''))
      \<and> decode_utf8 ext (data file) = Inl e
      \<longrightarrow> process_document ext (Some file) = None)"
proof -
  have p: "extract_text_from_pdf ext file = None"
    if "pdf_pages ext (data file) = Inr pages" "Inl e \<in> set pages"
    using pdf_loop_page_raises [OF that(2), of "[]"] that(1)
    by (auto simp: extract_text_from_pdf_def)
  have q: "extract_text_from_pdf ext file = None" if "pdf_pages ext (data file) = Inl e"
    using that by (simp add: extract_text_from_pdf_def)
  show ?thesis
    using p q
    by (auto simp: process_document_def Let_def extract_text_from_docx_def
        extract_text_from_txt_def)
qed

theorem process_document_failures_are_None_witness:
  "process_document example_env None = None
   \<and> process_document example_env
       (Some \<lparr>name = ascii ''Photo.PNG'', type = ascii ''image/png'', data = ''abc''\<rparr>) = None
   \<and> process_document example_env
       (Some \<lparr>name = ascii ''Notes.PDF'', type = ascii ''application/octet-stream'',
              data = ''garbage''\<rparr>) = None
   \<and> process_document example_env
       (Some \<lparr>name = ascii ''notes.pdf'', type = ascii ''application/pdf'',
              data = ''%PDF-damaged''\<rparr>) = None
   \<and> process_document example_env
       (Some \<lparr>name = ascii ''essay.docx'', type = ascii ''application/octet-stream'',
              data = ''PK''\<rparr>) = None
   \<and> process_document example_env
       (Some \<lparr>name = ascii ''notes.txt'', type = ascii ''text/plain'',
              data = [char_of (255::nat)]\<rparr>) = None"
proof -
  note t = process_document_failures_are_None
  have 1: "process_document example_env None = None"
    using t [of example_env] by simp
  have 2: "process_document example_env
       (Some \<lparr>name = ascii ''Photo.PNG'', type = ascii ''image/png'', data = ''abc''\<rparr>) = None"
    using t [of example_env
        "\<lparr>name = ascii ''Photo.PNG'', type = ascii ''image/png'', data = ''abc''\<rparr>"]
    by (simp add: example_env_def ascii_def ascii_lower_def endswith_def)
  have 3: "process_document example_env
       (Some \<lparr>name = ascii ''Notes.PDF'', type = ascii ''application/octet-stream'',
              data = ''garbage''\<rparr>) = None"
    using t [of example_env
        "\<lparr>name = ascii ''Notes.PDF'', type = ascii ''application/octet-stream'',
          data = ''garbage''\<rparr>"
        "Exception ''PdfReadError''"]
    by (simp add: example_env_def ascii_def ascii_lower_def endswith_def)
  have 4: "process_document example_env
       (Some \<lparr>name = ascii ''notes.pdf'', type = ascii ''application/pdf'',
              data = ''%PDF-damaged''\<rparr>) = None"
    using t [of example_env
        "\<lparr>name = ascii ''notes.pdf'', type = ascii ''application/pdf'',
          data = ''%PDF-damaged''\<rparr>"
        "Exception ''PdfReadError''"
        "[Inr (ascii ''Page one''), Inl (Exception ''PdfReadError'')]"]
    by (simp add: example_env_def ascii_def ascii_lower_def endswith_def)
  have 5: "process_document example_env
       (Some \<lparr>name = ascii ''essay.docx'', type = ascii ''application/octet-stream'',
              data = ''PK''\<rparr>) = None"
    using t [of example_env
        "\<lparr>name = ascii ''essay.docx'', type = ascii ''application/octet-stream'',
          data = ''PK''\<rparr>"
        "Exception ''BadZipFile''"]
    by (simp add: example_env_def ascii_def ascii_lower_def endswith_def)
  have 6: "process_document example_env
       (Some \<lparr>name = ascii ''notes.txt'', type = ascii ''text/plain'',
              data = [char_of (255::nat)]\<rparr>) = None"
    using t [of example_env
        "\<lparr>name = ascii ''notes.txt'', type = ascii ''text/plain'',
          data = [char_of (255::nat)]\<rparr>"
        "Exception ''UnicodeDecodeError''"]
    by (simp add: example_env_def ascii_def ascii_lower_def endswith_def)
  show ?thesis using 1 2 3 4 5 6 by blast
qed


section \<open>The document kept by the session\<close>

lemma load_document_same_name:
  "current_document s = Some (name file) \<Longrightarrow> load_document ext s file = (s, False)"
  by (simp add: load_document_def)

lemma load_document_other_name:
  "current_document s \<noteq> Some (name file) \<Longrightarrow>
     load_document ext s file =
       (if truthy (process_document ext (Some file))
        then (s\<lparr>document_text := process_document ext (Some file),
                current_document := Some (name file)\<rparr>, True)
        else (s, True))"
  by (simp add: load_document_def Let_def)

lemma load_documents_same_name:
  "current_document s = Some n \<Longrightarrow> list_all (\<lambda>f. name f = n) files \<Longrightarrow>
     load_documents ext s files = (s, replicate (length files) False)"
  by (induction files) (simp_all add: load_document_same_name)

text \<open>
  C4, as stated, has the same file name extracted again if and only if the content
  changed. The session keeps the file name only; no hash of the content is computed
  anywhere. A file "notes.txt" holding "alpha" followed by a file "notes.txt" holding
  "beta" is processed once: the second upload is not extracted, and the session keeps the
  text "alpha" although the file now reads "beta".
\<close>

theorem document_cache_counterexample:
  "data \<lparr>name = ascii ''notes.txt'', type = ascii ''text/plain'', data = ''alpha''\<rparr>
     \<noteq> data \<lparr>name = ascii ''notes.txt'', type = ascii ''text/plain'', data = ''beta''\<rparr>
   \<and> process_document example_env
        (Some \<lparr>name = ascii ''notes.txt'', type = ascii ''text/plain'', data = ''beta''\<rparr>)
      = Some (ascii ''beta'')
   \<and> load_documents example_env (new_session :: unit session_state)
       [\<lparr>name = ascii ''notes.txt'', type = ascii ''text/plain'', data = ''alpha''\<rparr>,
        \<lparr>name = ascii ''notes.txt'', type = ascii ''text/plain'', data = ''beta''\<rparr>]
      = (\<lparr>models = None, current_document = Some (ascii ''notes.txt''),
           document_text = Some (ascii ''alpha'')\<rparr>, [True, False])"
  by (simp add: load_document_def process_document_def extract_text_from_txt_def
      example_env_def new_session_def ascii_def ascii_lower_def endswith_def truthy_def)

text \<open>
  C4, amended: in the question answering interface the session keeps one document,
  identified by its file name alone. An upload whose name is the kept name is never
  extracted and leaves the kept text unchanged, whatever its content, and so does any
  sequence of such uploads. An upload with another name (or any upload while nothing is
  kept) is always extracted; the kept text and name are replaced by its text and name
  when that text is not empty, and are left as they were when extraction fails or yields
  the empty text.
\<close>

theorem document_cache_keyed_by_name:
  "(current_document s = Some (name file) \<longrightarrow> load_document ext s file = (s, False))
   \<and> (current_document s \<noteq> Some (name file) \<longrightarrow>
        snd (load_document ext s file) = True
        \<and> (\<forall>t. process_document ext (Some file) = Some t \<and> t \<noteq> [] \<longrightarrow>
              fst (load_document ext s file) =
                s\<lparr>document_text := Some t, current_document := Some (name file)\<rparr>)
        \<and> (process_document ext (Some file) = None \<or> process_document ext (Some file) = Some []
              \<longrightarrow> fst (load_document ext s file) = s))
   \<and> (current_document s = Some n \<and> list_all (\<lambda>f. name f = n) files \<longrightarrow>
        load_documents ext s files = (s, replicate (length files) False))"
  by (auto simp: load_document_same_name load_document_other_name load_documents_same_name
      truthy_def)

theorem document_cache_keyed_by_name_witness:
  "load_document example_env
      \<lparr>models = None :: unit option, current_document = Some (ascii ''notes.txt''),
        document_text = Some (ascii ''alpha'')\<rparr>
      \<lparr>name = ascii ''notes.txt'', type = ascii ''text/plain'', data = ''beta''\<rparr>
    = (\<lparr>models = None, current_document = Some (ascii ''notes.txt''),
        document_text = Some (ascii ''alpha'')\<rparr>, False)
   \<and> load_document example_env
      \<lparr>models = None :: unit option, current_document = Some (ascii ''notes.txt''),
        document_text = Some (ascii ''alpha'')\<rparr>
      \<lparr>name = ascii ''other.txt'', type = ascii ''text/plain'', data = ''beta''\<rparr>
    = (\<lparr>models = None, current_document = Some (ascii ''other.txt''),
        document_text = Some (ascii ''beta'')\<rparr>, True)
   \<and> load_document example_env
      \<lparr>models = None :: unit option, current_document = Some (ascii ''notes.txt''),
        document_text = Some (ascii ''alpha'')\<rparr>
      \<lparr>name = ascii ''empty.txt'', type = ascii ''text/plain'', data = []\<rparr>
    = (\<lparr>models = None, current_document = Some (ascii ''notes.txt''),
        document_text = Some (ascii ''alpha'')\<rparr>, True)
   \<and> load_documents example_env
      \<lparr>models = None :: unit option, current_document = Some (ascii ''notes.txt''),
        document_text = Some (ascii ''alpha'')\<rparr>
      [\<lparr>name = ascii ''notes.txt'', type = ascii ''text/plain'', data = ''beta''\<rparr>,
       \<lparr>name = ascii ''notes.txt'', type = ascii ''text/plain'', data = ''gamma''\<rparr>]
    = (\<lparr>models = None, current_document = Some (ascii ''notes.txt''),
        document_text = Some (ascii ''alpha'')\<rparr>, [False, False])"
proof -
  let ?s = "\<lparr>models = None :: unit option, current_document = Some (ascii ''notes.txt''),
        document_text = Some (ascii ''alpha'')\<rparr>"
  let ?same = "\<lparr>name = ascii ''notes.txt'', type = ascii ''text/plain'', data = ''beta''\<rparr>"
  let ?again = "\<lparr>name = ascii ''notes.txt'', type = ascii ''text/plain'', data = ''gamma''\<rparr>"
  let ?other = "\<lparr>name = ascii ''other.txt'', type = ascii ''text/plain'', data = ''beta''\<rparr>"
  let ?empty = "\<lparr>name = ascii ''empty.txt'', type = ascii ''text/plain'', data = []\<rparr>"
  have po: "process_document example_env (Some ?other) = Some (ascii ''beta'')"
    by (simp add: process_document_def extract_text_from_txt_def
      example_env_def ascii_def ascii_lower_def endswith_def)
  have pe: "process_document example_env (Some ?empty) = Some []"
    by (simp add: process_document_def extract_text_from_txt_def
      example_env_def ascii_def ascii_lower_def endswith_def)
  have no: "current_document ?s \<noteq> Some (name ?other)" by (simp add: ascii_def)
  have ne: "current_document ?s \<noteq> Some (name ?empty)" by (simp add: ascii_def)
  have 1: "load_document example_env ?s ?same = (?s, False)"
    using document_cache_keyed_by_name [of ?s ?same example_env] by simp
  have 2: "load_document example_env ?s ?other
     = (?s\<lparr>document_text := Some (ascii ''beta''),
           current_document := Some (ascii ''other.txt'')\<rparr>, True)"
    using document_cache_keyed_by_name [of ?s ?other example_env] no po
    by (simp add: prod_eq_iff ascii_def)
  have 3: "load_document example_env ?s ?empty = (?s, True)"
    using document_cache_keyed_by_name [of ?s ?empty example_env] ne pe
    by (simp add: prod_eq_iff)
  have 4: "load_documents example_env ?s [?same, ?again] = (?s, [False, False])"
    using document_cache_keyed_by_name
      [of ?s ?same example_env "ascii ''notes.txt''" "[?same, ?again]",
        THEN conjunct2, THEN conjunct2]
    by (simp del: load_documents.simps)
  show ?thesis using 1 2 3 4 by simp
qed


section \<open>The Question task\<close>



text \<open>
  C8, as stated, has a Question on an empty extracted text reach the Q&A pipeline with
  the empty context. The source stores an extracted text only when it is not empty and
  shows the question form only when the stored text is not empty: in a new session, an
  empty text file and the question "What?" lead to no call at all, and to neither an
  answer nor a failure.
\<close>

theorem empty_text_dispatch_counterexample:
  "process_document example_env
      (Some \<lparr>name = ascii ''empty.txt'', type = ascii ''text/plain'', data = []\<rparr>) = Some []
   \<and> question_answering_interface example_env
      \<lparr>models = Some example_models, current_document = None, document_text = None\<rparr>
      (Some \<lparr>name = ascii ''empty.txt'', type = ascii ''text/plain'', data = []\<rparr>)
      (ascii ''What?'') True
    = (\<lparr>models = Some example_models, current_document = None, document_text = None\<rparr>,
       True, [], NoForm)
   \<and> fst (snd (snd (question_answering_interface example_env
      \<lparr>models = Some example_models, current_document = None, document_text = None\<rparr>
      (Some \<lparr>name = ascii ''empty.txt'', type = ascii ''text/plain'', data = []\<rparr>)
      (ascii ''What?'') True))) \<noteq> [(ascii ''What?'', [])]"
  by (simp add: question_answering_interface_def load_document_def ask_def
      process_document_def extract_text_from_txt_def truthy_def
      example_env_def ascii_def ascii_lower_def endswith_def)

text \<open>
  C8, amended: an extraction that yields the empty text (or fails) is not stored, and
  the question form is offered only when the text stored in the session is not empty.
  So in a session with no stored text, a Question on a document whose extracted text is
  empty makes no call to the Q&A pipeline and shows neither an answer nor a failure.
\<close>

theorem empty_text_not_dispatched:
  "(\<not> truthy doc \<longrightarrow> ask ms doc question button = ([], NoForm))
   \<and> (\<not> truthy (process_document ext (Some file)) \<longrightarrow> fst (load_document ext s file) = s)
   \<and> (models s = Some ms \<and> \<not> truthy (document_text s)
        \<and> \<not> truthy (process_document ext (Some file))
      \<longrightarrow> (\<exists>processed. question_answering_interface ext s (Some file) question button
             = (s, processed, [], NoForm)))"
  by (auto simp: question_answering_interface_def load_document_def ask_def Let_def truthy_def
      split: option.splits)

theorem empty_text_not_dispatched_witness:
  "snd (snd (question_answering_interface example_env
      \<lparr>models = Some example_models, current_document = None, document_text = None\<rparr>
      (Some \<lparr>name = ascii ''empty.txt'', type = ascii ''text/plain'', data = []\<rparr>)
      (ascii ''What?'') True))
    = ([], NoForm)
   \<and> ask example_models (Some []) (ascii ''What?'') True = ([], NoForm)"
proof -
  let ?s = "\<lparr>models = Some example_models, current_document = None, document_text = None\<rparr>"
  let ?f = "\<lparr>name = ascii ''empty.txt'', type = ascii ''text/plain'', data = []\<rparr>"
  have pe: "\<not> truthy (process_document example_env (Some ?f))"
    by (simp add: process_document_def extract_text_from_txt_def truthy_def
      example_env_def ascii_def ascii_lower_def endswith_def)
  have "\<exists>processed. question_answering_interface example_env ?s (Some ?f) (ascii ''What?'') True
             = (?s, processed, [], NoForm)"
    using empty_text_not_dispatched
      [of None example_models "ascii ''What?''" True example_env ?f ?s] pe
    by (simp add: truthy_def)
  moreover have "ask example_models (Some []) (ascii ''What?'') True = ([], NoForm)"
    using empty_text_not_dispatched
      [of "Some []" example_models "ascii ''What?''" True example_env ?f ?s]
    by (simp add: truthy_def)
  ultimately show ?thesis by auto
qed


section \<open>The Summarize task\<close>

lemma summarize_chunks_all_return:
  "list_all (\<lambda>c. f c = Inr (g c)) (filter (\<lambda>c. 50 < length (str_split c)) cs) \<Longrightarrow>
     summarize_chunks f cs acc =
       (filter (\<lambda>c. 50 < length (str_split c)) cs,
        Inr (acc @ map g (filter (\<lambda>c. 50 < length (str_split c)) cs)))"
  by (induction cs arbitrary: acc) auto

lemma summarize_chunks_calls_prefix:
  "\<exists>rest. filter (\<lambda>c. 50 < length (str_split c)) cs = fst (summarize_chunks f cs acc) @ rest"
proof (induction cs arbitrary: acc)
  case Nil
  show ?case by simp
next
  case (Cons c cs)
  show ?case
  proof (cases "50 < length (str_split c)")
    case False
    then show ?thesis using Cons by simp
  next
    case True
    show ?thesis
    proof (cases "f c")
      case (Inl e)
      then show ?thesis using True by simp
    next
      case (Inr summary)
      from Cons [of "acc @ [summary]"] show ?thesis
        using True Inr by (auto split: prod.splits)
    qed
  qed
qed

lemma generate_summary_calls:
  "fst (generate_summary ms text max_length min_length)
     = fst (summarize_chunks (\<lambda>chunk. summarizer ms chunk max_length min_length)
              (take 3 (chunks text)) [])"
  by (simp add: generate_summary_def Let_def split: prod.splits sum.splits)

lemma split_scan_word:
  "list_all (\<lambda>c. \<not> isspace c) w \<Longrightarrow> split_scan acc (w @ rest) = split_scan (acc @ w) rest"
  by (induction w arbitrary: acc) simp_all

lemma split_scan_repeated_word:
  "list_all (\<lambda>c. \<not> isspace c) w \<Longrightarrow> w \<noteq> [] \<Longrightarrow> isspace c \<Longrightarrow>
     split_scan [] (concat (replicate n (w @ [c]))) = replicate n w"
  by (induction n) (simp_all add: split_scan_word)

lemma words_of_repeated_word:
  "length (str_split (concat (replicate n (ascii ''word '')))) = n"
proof -
  have "ascii ''word '' = ascii ''word'' @ [32]" by (simp add: ascii_def)
  moreover have "list_all (\<lambda>c. \<not> isspace c) (ascii ''word'')" "ascii ''word'' \<noteq> []"
    "isspace 32"
    by (simp_all add: ascii_def isspace_def)
  ultimately show ?thesis
    by (simp add: str_split_def split_scan_repeated_word)
qed

lemma length_repeated_word: "length (concat (replicate n (ascii ''word ''))) = 5 * n"
  by (induction n) (simp_all add: ascii_def)

lemma repeated_word_add:
  "concat (replicate (m + n) w) = concat (replicate m w) @ concat (replicate n w)"
  by (simp add: replicate_add)

lemma chunks_of_long_text:
  "chunks (concat (replicate 2500 (ascii ''word ''))) =
     [concat (replicate 600 (ascii ''word '')), concat (replicate 600 (ascii ''word '')),
      concat (replicate 600 (ascii ''word '')), concat (replicate 600 (ascii ''word '')),
      concat (replicate 100 (ascii ''word ''))]"
proof -
  have "concat (replicate 2500 (ascii ''word '')) =
      concat (replicate 600 (ascii ''word '')) @ concat (replicate 600 (ascii ''word ''))
      @ concat (replicate 600 (ascii ''word '')) @ concat (replicate 600 (ascii ''word ''))
      @ concat (replicate 100 (ascii ''word ''))"
    using repeated_word_add [of 600 1900 "ascii ''word ''"]
      repeated_word_add [of 600 1300 "ascii ''word ''"]
      repeated_word_add [of 600 700 "ascii ''word ''"]
      repeated_word_add [of 600 100 "ascii ''word ''"]
    by simp
  then show ?thesis
    by (simp add: chunks_def chunks_of_size_def max_input_def range_step.simps
        length_repeated_word)
qed

lemma floor_rat_fraction:
  "\<lfloor>numeral a / numeral b :: rat\<rfloor> = numeral a div numeral b"
  by (metis floor_divide_of_int_eq of_int_numeral)

lemma ceiling_rat_fraction:
  "\<lceil>numeral a / numeral b :: rat\<rceil> = - (- numeral a div numeral b)"
  unfolding ceiling_def
  using floor_divide_of_int_eq [of "- numeral a" "numeral b", where ?'a = rat] by simp

lemmas float_eval =
  float_mul_def float_sub_def int_true_divide_def round64_def binary_exponent_def pow2_def
  round_half_even_def bit_length.simps Let_def floor_rat_fraction ceiling_rat_fraction

lemma compression_of_long_text:
  "float_mul (float_sub 1 (int_true_divide 56 12500)) 100
     = 3502674610187403 / 35184372088832"
  by (simp add: float_eval)

lemma format_of_long_text:
  "format_1f (3502674610187403 / 35184372088832) = ascii ''99.6''"
  by (simp add: format_1f_def round_half_even_def decimal.simps Let_def ascii_def
      floor_rat_fraction)

text \<open>
  A summary of 58 characters for a text of 160: the exact percentage is 63.75, the float
  is 63.74999999999999, and the metric shows "63.7%".
\<close>

lemma compression_below_exact_value:
  "float_mul (float_sub 1 (int_true_divide 58 160)) 100
     = 8972014882652159 / 140737488355328
   \<and> format_1f (8972014882652159 / 140737488355328) @ ascii ''%'' = ascii ''63.7%''
   \<and> 100 * spec_compression_ratio 58 160 = 255 / 4"
proof -
  have "float_mul (float_sub 1 (int_true_divide 58 160)) 100
     = 8972014882652159 / 140737488355328"
    by (simp add: float_eval)
  moreover have "format_1f (8972014882652159 / 140737488355328) @ ascii ''%'' = ascii ''63.7%''"
    by (simp add: format_1f_def round_half_even_def decimal.simps Let_def ascii_def
        floor_rat_fraction)
  moreover have "100 * spec_compression_ratio 58 160 = 255 / 4"
    by (simp add: spec_compression_ratio_def)
  ultimately show ?thesis by blast
qed

lemma generate_summary_all_return:
  "text \<noteq> [] \<Longrightarrow>
   list_all (\<lambda>c. summarizer ms c max_length min_length = Inr (g c))
     (filter (\<lambda>c. 50 < length (str_split c)) (take 3 (chunks text))) \<Longrightarrow>
   ws = filter (\<lambda>c. 50 < length (str_split c)) (take 3 (chunks text)) \<Longrightarrow>
     generate_summary ms text max_length min_length
       = (ws, Done (join (ascii '' '') (map g ws),
            float_mul (float_sub 1 (int_true_divide (length (join (ascii '' '') (map g ws)))
                                      (length text))) 100,
            format_1f
              (float_mul (float_sub 1 (int_true_divide (length (join (ascii '' '') (map g ws)))
                                         (length text))) 100) @ ascii ''%''))"
  by (simp add: generate_summary_def summarize_chunks_all_return Let_def)

lemma summary_of_long_text:
  "summarization_interface example_env
      \<lparr>models = Some example_models, current_document = None, document_text = None\<rparr>
      (Paste (concat (replicate 2500 (ascii ''word '')))) 130 30 True
    = ([concat (replicate 600 (ascii ''word '')), concat (replicate 600 (ascii ''word '')),
        concat (replicate 600 (ascii ''word ''))],
       Done (ascii ''Words about words. Words about words. Words about words.'',
             3502674610187403 / 35184372088832, ascii ''99.6%''))"
proof -
  let ?w = "concat (replicate 600 (ascii ''word ''))"
  let ?text = "concat (replicate 2500 (ascii ''word ''))"
  have ws: "[?w, ?w, ?w] = filter (\<lambda>c. 50 < length (str_split c)) (take 3 (chunks ?text))"
    by (simp add: chunks_of_long_text words_of_repeated_word)
  have ne: "?text \<noteq> []"
    using length_repeated_word [of 2500] by auto
  have ok: "list_all (\<lambda>c. summarizer example_models c 130 30 = Inr (ascii ''Words about words.''))
      (filter (\<lambda>c. 50 < length (str_split c)) (take 3 (chunks ?text)))"
    unfolding ws [symmetric] by (simp add: example_models_def ascii_def)
  have j: "join (ascii '' '') (map (\<lambda>c. ascii ''Words about words.'') [?w, ?w, ?w])
      = ascii ''Words about words. Words about words. Words about words.''"
    by (simp add: ascii_def)
  have l: "length (ascii ''Words about words. Words about words. Words about words.'') = 56"
    by (simp add: ascii_def)
  have p: "ascii ''99.6'' @ ascii ''%'' = ascii ''99.6%''"
    by (simp add: ascii_def)
  have g: "generate_summary example_models ?text 130 30
      = ([?w, ?w, ?w],
         Done (ascii ''Words about words. Words about words. Words about words.'',
               3502674610187403 / 35184372088832, ascii ''99.6%''))"
    using generate_summary_all_return [OF ne ok ws]
    unfolding j l length_repeated_word
    by (simp add: compression_of_long_text format_of_long_text p)
  show ?thesis using ne g by (simp add: summarization_interface_def)
qed

text \<open>
  C5, as stated, has the task report the compression ratio
  \<open>1 - len(summary)/len(original_text)\<close>. The source computes
  \<open>(1 - len(final_summary)/len(text_content)) * 100\<close> in floats and shows it with one
  decimal and a percent sign. For a text of 12500 characters and a summary of 56 the ratio
  is 3111/3125; the float \<open>compression\<close> is 99.55199999999999, shown as "99.6%": it
  is not the ratio, and not exactly a hundred times the ratio either.
\<close>

theorem compression_ratio_counterexample:
  "summarization_interface example_env
      \<lparr>models = Some example_models, current_document = None, document_text = None\<rparr>
      (Paste (concat (replicate 2500 (ascii ''word '')))) 130 30 True
    = ([concat (replicate 600 (ascii ''word '')), concat (replicate 600 (ascii ''word '')),
        concat (replicate 600 (ascii ''word ''))],
       Done (ascii ''Words about words. Words about words. Words about words.'',
             3502674610187403 / 35184372088832, ascii ''99.6%''))
   \<and> spec_compression_ratio
        (length (ascii ''Words about words. Words about words. Words about words.''))
        (length (concat (replicate 2500 (ascii ''word '')))) = 3111 / 3125
   \<and> (3502674610187403 / 35184372088832 :: rat) \<noteq> 3111 / 3125
   \<and> (3502674610187403 / 35184372088832 :: rat) \<noteq> 100 * (3111 / 3125)"
proof -
  have "spec_compression_ratio
        (length (ascii ''Words about words. Words about words. Words about words.''))
        (length (concat (replicate 2500 (ascii ''word '')))) = 3111 / 3125"
    by (simp add: spec_compression_ratio_def length_repeated_word) (simp add: ascii_def)
  then show ?thesis using summary_of_long_text by simp
qed

text \<open>
  C5, amended: for every non-empty input text (pasted, or extracted from an upload), the
  Summarize task looks at the first three windows only and passes to the summarizer
  exactly those of them that have more than 50 words, in window order: whatever the
  summarizer does, its calls are a leading part of that list. When each call returns, the
  final summary is the per-window summaries in window order joined by one space, and the
  compression reported is the percentage
  \<open>(1 - len(summary)/len(original_text)) * 100\<close>, evaluated in double precision
  (the quotient, the difference and the product each rounded to the nearest double) and
  shown with one decimal and a percent sign.
\<close>

theorem summarize_leading_substantial_windows:
  "models s = Some ms \<Longrightarrow> text \<noteq> [] \<Longrightarrow>
   input = Paste text \<or> input = Upload (Some file) \<and> process_document ext (Some file) = Some text \<Longrightarrow>
   ws = filter (\<lambda>c. 50 < length (str_split c)) (take 3 (chunks text)) \<Longrightarrow>
   percentage = round64 (round64 (1 - round64 (of_nat (length (join (ascii '' '') (map g ws)))
                                              / of_nat (length text))) * 100) \<Longrightarrow>
     (\<exists>rest. ws = fst (summarization_interface ext s input max_length min_length True) @ rest)
     \<and> (list_all (\<lambda>c. summarizer ms c max_length min_length = Inr (g c)) ws \<longrightarrow>
          summarization_interface ext s input max_length min_length True
            = (ws, Done (join (ascii '' '') (map g ws), percentage,
                         format_1f percentage @ ascii ''%'')))"
proof -
  assume a: "models s = Some ms" "text \<noteq> []"
    "input = Paste text \<or> input = Upload (Some file) \<and> process_document ext (Some file) = Some text"
    "ws = filter (\<lambda>c. 50 < length (str_split c)) (take 3 (chunks text))"
    "percentage = round64 (round64 (1 - round64 (of_nat (length (join (ascii '' '') (map g ws)))
                                              / of_nat (length text))) * 100)"
  have i: "summarization_interface ext s input max_length min_length True
      = generate_summary ms text max_length min_length"
    using a(1,2,3) by (auto simp: summarization_interface_def)
  have 1: "\<exists>rest. ws = fst (summarization_interface ext s input max_length min_length True) @ rest"
    unfolding i a(4) generate_summary_calls by (rule summarize_chunks_calls_prefix)
  have 2: "summarization_interface ext s input max_length min_length True
            = (ws, Done (join (ascii '' '') (map g ws), percentage,
                         format_1f percentage @ ascii ''%''))"
    if "list_all (\<lambda>c. summarizer ms c max_length min_length = Inr (g c)) ws"
    using generate_summary_all_return [OF a(2) that [unfolded a(4)] a(4)]
    unfolding i a(5)
    by (simp add: float_mul_def float_sub_def int_true_divide_def)
  show ?thesis using 1 2 by blast
qed

theorem summarize_leading_substantial_windows_witness:
  "summarization_interface example_env
      \<lparr>models = Some example_models, current_document = None, document_text = None\<rparr>
      (Paste (concat (replicate 2500 (ascii ''word '')))) 130 30 True
    = ([concat (replicate 600 (ascii ''word '')), concat (replicate 600 (ascii ''word '')),
        concat (replicate 600 (ascii ''word ''))],
       Done (ascii ''Words about words. Words about words. Words about words.'',
             3502674610187403 / 35184372088832, ascii ''99.6%''))"
proof -
  let ?w = "concat (replicate 600 (ascii ''word ''))"
  let ?text = "concat (replicate 2500 (ascii ''word ''))"
  let ?s = "\<lparr>models = Some example_models, current_document = None, document_text = None\<rparr>"
  have ws: "[?w, ?w, ?w] = filter (\<lambda>c. 50 < length (str_split c)) (take 3 (chunks ?text))"
    by (simp add: chunks_of_long_text words_of_repeated_word)
  have ne: "?text \<noteq> []"
    using length_repeated_word [of 2500] by auto
  have ok: "list_all (\<lambda>c. summarizer example_models c 130 30 = Inr (ascii ''Words about words.''))
      [?w, ?w, ?w]"
    by (simp add: example_models_def ascii_def)
  have j: "join (ascii '' '') (map (\<lambda>c. ascii ''Words about words.'') [?w, ?w, ?w])
      = ascii ''Words about words. Words about words. Words about words.''"
    by (simp add: ascii_def)
  have l: "length (ascii ''Words about words. Words about words. Words about words.'') = 56"
    by (simp add: ascii_def)
  have pc: "(3502674610187403 / 35184372088832 :: rat)
      = round64 (round64 (1 - round64 (of_nat (length (join (ascii '' '')
            (map (\<lambda>c. ascii ''Words about words.'') [?w, ?w, ?w]))) / of_nat (length ?text))) * 100)"
    unfolding j l length_repeated_word
    using compression_of_long_text
    by (simp add: float_mul_def float_sub_def int_true_divide_def)
  from summarize_leading_substantial_windows [of ?s example_models ?text "Paste ?text"
      "\<lparr>name = [], type = [], data = []\<rparr>" example_env "[?w, ?w, ?w]"
      "3502674610187403 / 35184372088832" "\<lambda>c. ascii ''Words about words.''" 130 30,
      OF _ ne _ ws pc, THEN conjunct2] ok
  have "summarization_interface example_env ?s (Paste ?text) 130 30 True
      = ([?w, ?w, ?w],
         Done (join (ascii '' '') (map (\<lambda>c. ascii ''Words about words.'') [?w, ?w, ?w]),
           3502674610187403 / 35184372088832,
           format_1f (3502674610187403 / 35184372088832) @ ascii ''%''))"
    by simp
  then show ?thesis
    unfolding j format_of_long_text by (simp add: ascii_def)
qed


section \<open>The GenerateQuiz task\<close>

lemma quiz_loop_all_return:
  "list_all (\<lambda>x. gen (quiz_prompt x) = Inr (g x)) xs \<Longrightarrow>
     quiz_loop gen xs = (map quiz_prompt xs, map (\<lambda>x. (g x, x)) xs, None)"
  by (induction xs) simp_all

lemma quiz_loop_calls_prefix:
  "\<exists>rest. map quiz_prompt xs = fst (quiz_loop gen xs) @ rest"
  by (induction xs) (auto split: sum.splits prod.splits)

lemma quiz_loop_items:
  "length (fst (snd (quiz_loop gen xs))) \<le> length xs"
  by (induction xs) (auto split: sum.splits prod.splits)

text \<open>
  C7, as stated, splits the text at sentence-terminal punctuation. The source splits at
  the full stop only. A text of three sentences that end in a question mark, an
  exclamation mark and a full stop, each of more than five words, has three surviving
  units by the specification; the source sees one unit, so a request for 5 questions
  gives 1 item, whose reference is all three sentences, and not 3.
\<close>

theorem sentence_punctuation_counterexample:
  "length (filter (\<lambda>u. 5 < length (str_split u))
       (spec_sentence_units (ascii ''Is the cat on the warm mat today? Yes the cat is on the mat! Dogs bark loudly at the passing mail carrier.''))) = 3
   \<and> quiz_interface example_env
      \<lparr>models = Some example_models, current_document = None, document_text = None\<rparr>
      (Some \<lparr>name = ascii ''notes.txt'', type = ascii ''text/plain'', data = ''Is the cat on the warm mat today? Yes the cat is on the mat! Dogs bark loudly at the passing mail carrier.''\<rparr>)
      5 True
    = ([ascii ''generate question: Is the cat on the warm mat today? Yes the cat is on the mat! Dogs bark loudly at the passing mail carrier''],
       Done ([(ascii ''Is the cat on the warm mat today? Yes the cat is on the mat! Dogs bark loudly at the passing mail carrier?'', ascii ''Is the cat on the warm mat today? Yes the cat is on the mat! Dogs bark loudly at the passing mail carrier'')], None))
   \<and> length [(ascii ''Is the cat on the warm mat today? Yes the cat is on the mat! Dogs bark loudly at the passing mail carrier?'', ascii ''Is the cat on the warm mat today? Yes the cat is on the mat! Dogs bark loudly at the passing mail carrier'')]
       \<noteq> min 5 (length (filter (\<lambda>u. 5 < length (str_split u))
            (spec_sentence_units (ascii ''Is the cat on the warm mat today? Yes the cat is on the mat! Dogs bark loudly at the passing mail carrier.''))))"
proof -
  have u: "length (filter (\<lambda>u. 5 < length (str_split u))
       (spec_sentence_units (ascii ''Is the cat on the warm mat today? Yes the cat is on the mat! Dogs bark loudly at the passing mail carrier.''))) = 3"
    by (simp add: spec_sentence_units_def str_split_def ascii_def isspace_def)
  have pd: "process_document example_env
      (Some \<lparr>name = ascii ''notes.txt'', type = ascii ''text/plain'', data = ''Is the cat on the warm mat today? Yes the cat is on the mat! Dogs bark loudly at the passing mail carrier.''\<rparr>)
      = Some (ascii ''Is the cat on the warm mat today? Yes the cat is on the mat! Dogs bark loudly at the passing mail carrier.'')"
    by (simp add: process_document_def extract_text_from_txt_def
      example_env_def ascii_def ascii_lower_def endswith_def)
  have ne: "ascii ''Is the cat on the warm mat today? Yes the cat is on the mat! Dogs bark loudly at the passing mail carrier.'' \<noteq> []"
    by (simp add: ascii_def)
  have se: "sentences (ascii ''Is the cat on the warm mat today? Yes the cat is on the mat! Dogs bark loudly at the passing mail carrier.'') = [ascii ''Is the cat on the warm mat today? Yes the cat is on the mat! Dogs bark loudly at the passing mail carrier'']"
    by (simp add: sentences_def str_split_sep_def strip_def str_split_def ascii_def isspace_def)
  have q: "quiz_loop (quiz_gen example_models) [ascii ''Is the cat on the warm mat today? Yes the cat is on the mat! Dogs bark loudly at the passing mail carrier'']
      = ([ascii ''generate question: Is the cat on the warm mat today? Yes the cat is on the mat! Dogs bark loudly at the passing mail carrier''], [(ascii ''Is the cat on the warm mat today? Yes the cat is on the mat! Dogs bark loudly at the passing mail carrier?'', ascii ''Is the cat on the warm mat today? Yes the cat is on the mat! Dogs bark loudly at the passing mail carrier'')], None)"
    by (simp add: quiz_prompt_def example_models_def ascii_def)
  have "quiz_interface example_env
      \<lparr>models = Some example_models, current_document = None, document_text = None\<rparr>
      (Some \<lparr>name = ascii ''notes.txt'', type = ascii ''text/plain'', data = ''Is the cat on the warm mat today? Yes the cat is on the mat! Dogs bark loudly at the passing mail carrier.''\<rparr>)
      5 True
    = ([ascii ''generate question: Is the cat on the warm mat today? Yes the cat is on the mat! Dogs bark loudly at the passing mail carrier''],
       Done ([(ascii ''Is the cat on the warm mat today? Yes the cat is on the mat! Dogs bark loudly at the passing mail carrier?'', ascii ''Is the cat on the warm mat today? Yes the cat is on the mat! Dogs bark loudly at the passing mail carrier'')], None))"
    using ne by (simp add: quiz_interface_def pd generate_quiz_def se q del: quiz_loop.simps)
  then show ?thesis using u by simp
qed

text \<open>
  C7, amended: for every non-empty document text and requested count \<open>n\<close>,
  GenerateQuiz splits the text at every full stop and at no other punctuation (question
  and exclamation marks end no unit), keeps the units of more than five words, and takes
  the first \<open>n\<close> of them. Its calls to the generator are a leading part of the prompts
  of these units, each prompt being "generate question: " followed by the first 200
  characters of the unit without its surrounding whitespace. When each call returns, it
  shows one item per unit, in source order, pairing the generated question with the whole
  unit (without surrounding whitespace) as reference: \<open>min n k\<close> items for \<open>k\<close>
  surviving units. Asking for 5 questions on a text with 2 such units gives exactly 2
  items and no error.
\<close>

theorem quiz_items_from_surviving_sentences:
  "models s = Some ms \<Longrightarrow> process_document ext (Some file) = Some text \<Longrightarrow> text \<noteq> [] \<Longrightarrow>
   units = filter (\<lambda>u. 5 < length (str_split u)) (str_split_sep (of_char CHR ''.'') text) \<Longrightarrow>
     (\<exists>rest. map (\<lambda>u. ascii ''generate question: '' @ take 200 (strip u)) (take n units)
        = fst (quiz_interface ext s (Some file) n True) @ rest)
     \<and> (list_all (\<lambda>u. quiz_gen ms (ascii ''generate question: '' @ take 200 (strip u))
                       = Inr (g (strip u))) (take n units) \<longrightarrow>
         quiz_interface ext s (Some file) n True
           = (map (\<lambda>u. ascii ''generate question: '' @ take 200 (strip u)) (take n units),
              Done (map (\<lambda>u. (g (strip u), strip u)) (take n units), None))
         \<and> length (map (\<lambda>u. (g (strip u), strip u)) (take n units)) = min n (length units))"
proof -
  assume a: "models s = Some ms" "process_document ext (Some file) = Some text" "text \<noteq> []"
    "units = filter (\<lambda>u. 5 < length (str_split u)) (str_split_sep (of_char CHR ''.'') text)"
  have t: "take n (sentences text) = map strip (take n units)"
    by (simp add: sentences_def a(4) take_map)
  have p: "map quiz_prompt (map strip (take n units))
      = map (\<lambda>u. ascii ''generate question: '' @ take 200 (strip u)) (take n units)"
    by (simp add: quiz_prompt_def comp_def)
  have i: "fst (quiz_interface ext s (Some file) n True)
      = fst (quiz_loop (quiz_gen ms) (map strip (take n units)))"
    using a(1,2,3) by (simp add: quiz_interface_def generate_quiz_def t split: prod.splits)
  have 1: "\<exists>rest. map (\<lambda>u. ascii ''generate question: '' @ take 200 (strip u)) (take n units)
        = fst (quiz_interface ext s (Some file) n True) @ rest"
    unfolding i p [symmetric] by (rule quiz_loop_calls_prefix)
  have 2: "quiz_interface ext s (Some file) n True
           = (map (\<lambda>u. ascii ''generate question: '' @ take 200 (strip u)) (take n units),
              Done (map (\<lambda>u. (g (strip u), strip u)) (take n units), None))"
    if h: "list_all (\<lambda>u. quiz_gen ms (ascii ''generate question: '' @ take 200 (strip u))
                       = Inr (g (strip u))) (take n units)"
  proof -
    have "list_all (\<lambda>x. quiz_gen ms (quiz_prompt x) = Inr (g x)) (map strip (take n units))"
      using h by (simp add: list_all_iff quiz_prompt_def)
    from quiz_loop_all_return [OF this] show ?thesis
      using a(1,2,3) by (simp add: quiz_interface_def generate_quiz_def t quiz_prompt_def comp_def)
  qed
  show ?thesis using 1 2 by (simp add: min_def)
qed

theorem quiz_items_from_surviving_sentences_witness:
  "quiz_interface example_env
      \<lparr>models = Some example_models, current_document = None, document_text = None\<rparr>
      (Some \<lparr>name = ascii ''notes.txt'', type = ascii ''text/plain'',
             data = ''The cat sat on the warm mat today. Too short. Dogs bark loudly at the passing mail carrier.''\<rparr>)
      5 True
    = ([ascii ''generate question: The cat sat on the warm mat today'',
        ascii ''generate question: Dogs bark loudly at the passing mail carrier''],
       Done ([(ascii ''The cat sat on the warm mat today?'', ascii ''The cat sat on the warm mat today''),
              (ascii ''Dogs bark loudly at the passing mail carrier?'',
               ascii ''Dogs bark loudly at the passing mail carrier'')], None))"
proof -
  let ?s = "\<lparr>models = Some example_models, current_document = None, document_text = None\<rparr>"
  let ?f = "\<lparr>name = ascii ''notes.txt'', type = ascii ''text/plain'',
             data = ''The cat sat on the warm mat today. Too short. Dogs bark loudly at the passing mail carrier.''\<rparr>"
  let ?text = "ascii ''The cat sat on the warm mat today. Too short. Dogs bark loudly at the passing mail carrier.''"
  let ?units = "[ascii ''The cat sat on the warm mat today'',
                 ascii '' Dogs bark loudly at the passing mail carrier'']"
  have pd: "process_document example_env (Some ?f) = Some ?text"
    by (simp add: process_document_def extract_text_from_txt_def
      example_env_def ascii_def ascii_lower_def endswith_def)
  have ne: "?text \<noteq> []" by (simp add: ascii_def)
  have u: "?units = filter (\<lambda>u. 5 < length (str_split u)) (str_split_sep (of_char CHR ''.'') ?text)"
    by (simp add: str_split_sep_def str_split_def ascii_def isspace_def)
  have st: "strip (ascii ''The cat sat on the warm mat today'') = ascii ''The cat sat on the warm mat today''"
    "strip (ascii '' Dogs bark loudly at the passing mail carrier'')
       = ascii ''Dogs bark loudly at the passing mail carrier''"
    by (simp_all add: strip_def ascii_def isspace_def)
  have ok: "list_all (\<lambda>u. quiz_gen example_models (ascii ''generate question: '' @ take 200 (strip u))
                       = Inr (take 200 (strip u) @ ascii ''?'')) (take 5 ?units)"
    by (simp add: example_models_def ascii_def)
  from quiz_items_from_surviving_sentences [of ?s example_models example_env ?f ?text ?units 5
      "\<lambda>x. take 200 x @ ascii ''?''", OF _ pd ne u, THEN conjunct2] ok
  have "quiz_interface example_env ?s (Some ?f) 5 True
           = (map (\<lambda>u. ascii ''generate question: '' @ take 200 (strip u)) (take 5 ?units),
              Done (map (\<lambda>u. (take 200 (strip u) @ ascii ''?'', strip u)) (take 5 ?units), None))"
    by simp
  then show ?thesis
    by (simp add: st) (simp add: ascii_def)
qed

end
